theory Spec2Isabelle
  imports Complex_Main
begin

section \<open>JavaScript numbers\<close>

text \<open>
  The player computes with JavaScript numbers: media durations may be \<open>NaN\<close> (metadata not
  loaded) or \<open>Infinity\<close> (a stream), and the code tests for both. A number is therefore one
  of the three special values or a finite value. Finite values are real numbers: rounding,
  overflow to infinity and the sign of zero are not represented, so every result below is
  about the arithmetic the code writes down, taken exactly.
\<close>

datatype num = NaN | PosInf | NegInf | Fin real

text \<open>Truthiness of a number in a condition: \<open>NaN\<close> and \<open>0\<close> are falsy.\<close>

fun truthy :: "num \<Rightarrow> bool" where
  "truthy NaN = False"
| "truthy (Fin x) = (x \<noteq> 0)"
| "truthy PosInf = True"
| "truthy NegInf = True"

fun isFinite :: "num \<Rightarrow> bool" where
  "isFinite (Fin x) = True"
| "isFinite NaN = False"
| "isFinite PosInf = False"
| "isFinite NegInf = False"

text \<open>The operator \<open>/\<close>.\<close>

fun num_div :: "num \<Rightarrow> num \<Rightarrow> num" where
  "num_div (Fin x) (Fin y) =
     (if y = 0 then (if x = 0 then NaN else if 0 < x then PosInf else NegInf)
      else Fin (x / y))"
| "num_div (Fin x) PosInf = Fin 0"
| "num_div (Fin x) NegInf = Fin 0"
| "num_div PosInf (Fin y) = (if 0 \<le> y then PosInf else NegInf)"
| "num_div NegInf (Fin y) = (if 0 \<le> y then NegInf else PosInf)"
| "num_div PosInf PosInf = NaN"
| "num_div PosInf NegInf = NaN"
| "num_div NegInf PosInf = NaN"
| "num_div NegInf NegInf = NaN"
| "num_div NaN y = NaN"
| "num_div x NaN = NaN"

text \<open>The operator \<open>*\<close>.\<close>

fun num_mul :: "num \<Rightarrow> num \<Rightarrow> num" where
  "num_mul (Fin x) (Fin y) = Fin (x * y)"
| "num_mul (Fin x) PosInf = (if x = 0 then NaN else if 0 < x then PosInf else NegInf)"
| "num_mul (Fin x) NegInf = (if x = 0 then NaN else if 0 < x then NegInf else PosInf)"
| "num_mul PosInf (Fin y) = (if y = 0 then NaN else if 0 < y then PosInf else NegInf)"
| "num_mul NegInf (Fin y) = (if y = 0 then NaN else if 0 < y then NegInf else PosInf)"
| "num_mul PosInf PosInf = PosInf"
| "num_mul PosInf NegInf = NegInf"
| "num_mul NegInf PosInf = NegInf"
| "num_mul NegInf NegInf = PosInf"
| "num_mul NaN y = NaN"
| "num_mul x NaN = NaN"

text \<open>The binary operator \<open>-\<close>.\<close>

fun num_sub :: "num \<Rightarrow> num \<Rightarrow> num" where
  "num_sub (Fin x) (Fin y) = Fin (x - y)"
| "num_sub (Fin x) PosInf = NegInf"
| "num_sub (Fin x) NegInf = PosInf"
| "num_sub PosInf (Fin y) = PosInf"
| "num_sub NegInf (Fin y) = NegInf"
| "num_sub PosInf NegInf = PosInf"
| "num_sub NegInf PosInf = NegInf"
| "num_sub PosInf PosInf = NaN"
| "num_sub NegInf NegInf = NaN"
| "num_sub NaN y = NaN"
| "num_sub x NaN = NaN"

text \<open>\<open>Math.abs\<close>.\<close>

fun num_abs :: "num \<Rightarrow> num" where
  "num_abs (Fin x) = Fin \<bar>x\<bar>"
| "num_abs PosInf = PosInf"
| "num_abs NegInf = PosInf"
| "num_abs NaN = NaN"

text \<open>The comparisons \<open>>\<close> and \<open>>=\<close>: false as soon as one side is \<open>NaN\<close>.\<close>

fun num_gt :: "num \<Rightarrow> num \<Rightarrow> bool" where
  "num_gt (Fin x) (Fin y) = (y < x)"
| "num_gt (Fin x) NegInf = True"
| "num_gt PosInf (Fin y) = True"
| "num_gt PosInf NegInf = True"
| "num_gt (Fin x) PosInf = False"
| "num_gt NegInf y = False"
| "num_gt PosInf PosInf = False"
| "num_gt NaN y = False"
| "num_gt x NaN = False"

fun num_ge :: "num \<Rightarrow> num \<Rightarrow> bool" where
  "num_ge (Fin x) (Fin y) = (y \<le> x)"
| "num_ge (Fin x) NegInf = True"
| "num_ge PosInf (Fin y) = True"
| "num_ge PosInf NegInf = True"
| "num_ge PosInf PosInf = True"
| "num_ge NegInf NegInf = True"
| "num_ge (Fin x) PosInf = False"
| "num_ge NegInf (Fin y) = False"
| "num_ge NegInf PosInf = False"
| "num_ge NaN y = False"
| "num_ge x NaN = False"

text \<open>\<open>Math.min\<close> of two numbers: \<open>NaN\<close> as soon as one argument is.\<close>

fun num_min :: "num \<Rightarrow> num \<Rightarrow> num" where
  "num_min (Fin x) (Fin y) = Fin (min x y)"
| "num_min NaN y = NaN"
| "num_min x NaN = NaN"
| "num_min NegInf y = NegInf"
| "num_min x NegInf = NegInf"
| "num_min PosInf y = y"
| "num_min x PosInf = x"


section \<open>The player's state\<close>

text \<open>
  The attributes of a media element that the component reads and writes. The video element
  has its native size in addition.
\<close>

record media =
  duration :: num
  currentTime :: num
  playbackRate :: num
  muted :: bool
  paused :: bool

record video_element = media +
  videoWidth :: nat
  videoHeight :: nat

record canvas =
  width :: nat
  height :: nat

text \<open>The state \<open>playbackRates\<close>, an object with the two rates.\<close>

record rates =
  video :: num
  audio :: num

text \<open>
  The component \<open>VideoPlayer\<close>: the prop \<open>audioUrl\<close>, the three refs (\<open>None\<close> is a
  \<open>null\<close> ref) and the state variables. The state variable \<open>duration\<close> is called
  \<open>durationState\<close>, the name \<open>duration\<close> being the element's attribute.
\<close>

record player =
  audioUrl :: "string option"
  videoRef :: "video_element option"
  audioRef :: "media option"
  canvasRef :: "canvas option"
  isPlaying :: bool
  isMuted :: bool
  progress :: num
  durationState :: num
  playbackRates :: rates
  isRecording :: bool
  recordingProgress :: num

text \<open>Truthiness of \<open>audioUrl\<close>: neither \<open>null\<close> nor the empty string.\<close>

fun url_truthy :: "string option \<Rightarrow> bool" where
  "url_truthy None = False"
| "url_truthy (Some s) = (s \<noteq> [])"


section \<open>Rate synchronisation\<close>

text \<open>
  Lines 35 to 49 of \<open>syncDurations\<close>: the pair \<open>newRates\<close> from the two durations.
\<close>

definition newRates :: "num \<Rightarrow> num \<Rightarrow> rates" where
  "newRates vDur aDur =
     (if num_gt aDur vDur
      then \<lparr>video = Fin 1, audio = num_div aDur vDur\<rparr>
      else \<lparr>video = num_div vDur aDur, audio = Fin 1\<rparr>)"

text \<open>
  \<open>syncDurations\<close>: with both elements and a dub URL, and both durations known and not
  infinite, the rates are computed, stored, applied to the elements, and the video is muted.
  With a video element but no dub, the video's rate is reset to 1.
\<close>

definition syncDurations :: "player \<Rightarrow> player" where
  "syncDurations p =
     (case videoRef p of
        None \<Rightarrow> p
      | Some v \<Rightarrow>
          (case (if url_truthy (audioUrl p) then audioRef p else None) of
             Some a \<Rightarrow>
               if truthy (duration v) \<and> truthy (duration a)
                  \<and> duration v \<noteq> PosInf \<and> duration a \<noteq> PosInf
               then
                 let r = newRates (duration v) (duration a)
                 in p\<lparr>playbackRates := r,
                      videoRef := Some (v\<lparr>playbackRate := video r, muted := True\<rparr>),
                      audioRef := Some (a\<lparr>playbackRate := audio r\<rparr>),
                      isMuted := True\<rparr>
               else p
           | None \<Rightarrow> p\<lparr>videoRef := Some (v\<lparr>playbackRate := Fin 1\<rparr>)\<rparr>))"


section \<open>Preview handlers\<close>

text \<open>
  Errors of the handlers. Assigning a value that is not finite to \<open>currentTime\<close> throws a
  \<open>TypeError\<close>; the other three are the failures of the export: the fetch of the dub audio,
  its decoding, and the construction of the recorder for a container it does not support.
\<close>

datatype error = TypeError | NetworkError | EncodingError | NotSupportedError

text \<open>
  The assignment \<open>element.currentTime = t\<close>. The elements are plain records of attributes:
  the value is stored as given (every position the handlers assign to an element with a
  known duration lies within it).
\<close>

definition set_currentTime :: "num \<Rightarrow> 'a media_scheme \<Rightarrow> error + 'a media_scheme" where
  "set_currentTime t m = (if isFinite t then Inr (m\<lparr>currentTime := t\<rparr>) else Inl TypeError)"

text \<open>
  A handler that throws leaves the state as it was at the throw: the result is then
  \<open>Inl (e, state)\<close>.
\<close>

type_synonym result = "(error \<times> player) + player"

definition togglePlay :: "player \<Rightarrow> player" where
  "togglePlay p =
     (case videoRef p of
        None \<Rightarrow> p
      | Some v \<Rightarrow>
          p\<lparr>videoRef := Some (v\<lparr>paused := isPlaying p\<rparr>),
            audioRef := map_option (\<lambda>a. a\<lparr>paused := isPlaying p\<rparr>) (audioRef p),
            isPlaying := \<not> isPlaying p\<rparr>)"

text \<open>
  \<open>handleTimeUpdate\<close>, the video's \<open>timeupdate\<close> handler: it mirrors duration and
  progress into the state and, with a dub, moves the audio to the video's fraction when the
  two fractions differ by more than 0.05.
\<close>

definition handleTimeUpdate :: "player \<Rightarrow> result" where
  "handleTimeUpdate p =
     (case videoRef p of
        None \<Rightarrow> Inr p
      | Some v \<Rightarrow>
          let current = currentTime v;
              dur = duration v;
              p1 = p\<lparr>durationState := dur\<rparr>;
              p2 = (if num_gt dur (Fin 0)
                    then p1\<lparr>progress := num_mul (num_div current dur) (Fin 100)\<rparr>
                    else p1)
          in (case (if url_truthy (audioUrl p) then audioRef p else None) of
                None \<Rightarrow> Inr p2
              | Some a \<Rightarrow>
                  let videoPercent = num_div current dur;
                      audioPercent = num_div (currentTime a) (duration a)
                  in if num_gt (num_abs (num_sub videoPercent audioPercent)) (Fin (5 / 100))
                        \<and> isFinite (duration a)
                     then (case set_currentTime (num_mul videoPercent (duration a)) a of
                             Inl e \<Rightarrow> Inl (e, p2)
                           | Inr a' \<Rightarrow> Inr (p2\<lparr>audioRef := Some a'\<rparr>))
                     else Inr p2))"

text \<open>\<open>handleSeek\<close>, with \<open>pct\<close> the parsed value of the range input.\<close>

definition handleSeek :: "num \<Rightarrow> player \<Rightarrow> result" where
  "handleSeek pct p =
     (case videoRef p of
        None \<Rightarrow> Inr p
      | Some v \<Rightarrow>
          let seekTime = num_mul (num_div pct (Fin 100)) (duration v)
          in (case set_currentTime seekTime v of
                Inl e \<Rightarrow> Inl (e, p)
              | Inr v' \<Rightarrow>
                  let p1 = p\<lparr>videoRef := Some v'\<rparr>
                  in (case audioRef p of
                        None \<Rightarrow> Inr (p1\<lparr>progress := pct\<rparr>)
                      | Some a \<Rightarrow>
                          if isFinite (duration a)
                          then (case set_currentTime
                                       (num_mul (num_div pct (Fin 100)) (duration a)) a of
                                  Inl e \<Rightarrow> Inl (e, p1)
                                | Inr a' \<Rightarrow> Inr (p1\<lparr>audioRef := Some a', progress := pct\<rparr>))
                          else Inr (p1\<lparr>progress := pct\<rparr>))))"

definition handleVideoEnded :: "player \<Rightarrow> player" where
  "handleVideoEnded p =
     p\<lparr>isPlaying := False,
       audioRef := map_option (\<lambda>a. a\<lparr>paused := True, currentTime := Fin 0\<rparr>) (audioRef p)\<rparr>"

definition toggleMute :: "player \<Rightarrow> player" where
  "toggleMute p =
     (case videoRef p of
        None \<Rightarrow> p
      | Some v \<Rightarrow> p\<lparr>videoRef := Some (v\<lparr>muted := \<not> muted v\<rparr>), isMuted := \<not> isMuted p\<rparr>)"


section \<open>Export\<close>

text \<open>
  What \<open>handleDownloadVideo\<close> creates: the audio context, the buffer source playing the
  decoded dub, the recorder, the animation-frame loop and the interval \<open>checkEnd\<close>.
\<close>

datatype actx = Running | Closed

datatype rstate = Inactive | Recording

record capture =
  audioContext :: actx
  sourceRate :: num
  sourcePlaying :: bool
  recorderState :: rstate
  animationPending :: bool
  checkEndActive :: bool
  startTime :: int
  recordingDurationSec :: num

text \<open>
  The environment of one export: whether the fetch of the dub (with reading its bytes)
  succeeds, whether decoding succeeds, whether the recorder accepts the container, and the
  reading of \<open>Date.now()\<close> at the start, in milliseconds.
\<close>

record env =
  fetchOk :: bool
  decodeOk :: bool
  mimeSupported :: bool
  dateNow :: int

text \<open>
  How the call ends: it returns early (\<open>Returned\<close>), its promise rejects (\<open>Rejected\<close>, with
  the state in which the audio context created at line 178 is left), or the recording is
  running (\<open>Started\<close>).
\<close>

datatype outcome = Returned | Rejected error actx | Started capture

text \<open>
  \<open>handleDownloadVideo\<close> up to the installation of the interval. The function has no
  \<open>try\<close>: a failed \<open>await\<close> or a throwing constructor ends it where it stands. The steps
  between the awaits are taken in one piece, no other handler running in between.
\<close>

definition handleDownloadVideo :: "env \<Rightarrow> player \<Rightarrow> player \<times> outcome" where
  "handleDownloadVideo e p =
     (case videoRef p of
        None \<Rightarrow> (p, Returned)
      | Some v \<Rightarrow>
          (case audioRef p of
             None \<Rightarrow> (p, Returned)
           | Some a \<Rightarrow>
               if \<not> url_truthy (audioUrl p) then (p, Returned)
               else
                 let v1 = v\<lparr>currentTime := Fin 0, paused := True\<rparr>;
                     a1 = a\<lparr>currentTime := Fin 0, paused := True\<rparr>;
                     p1 = p\<lparr>isRecording := True, isPlaying := False,
                            videoRef := Some v1, audioRef := Some a1\<rparr>
                 in (case canvasRef p of
                       None \<Rightarrow> (p1, Returned)
                     | Some c \<Rightarrow>
                         let p2 = p1\<lparr>canvasRef :=
                                       Some (c\<lparr>width := videoWidth v, height := videoHeight v\<rparr>)\<rparr>
                         in if \<not> fetchOk e then (p2, Rejected NetworkError Running)
                            else if \<not> decodeOk e then (p2, Rejected EncodingError Running)
                            else if \<not> mimeSupported e
                            then (p2, Rejected NotSupportedError Running)
                            else
                              (p2\<lparr>videoRef :=
                                    Some (v1\<lparr>paused := False,
                                             playbackRate := video (playbackRates p)\<rparr>)\<rparr>,
                               Started
                                 \<lparr>audioContext = Running,
                                  sourceRate = audio (playbackRates p),
                                  sourcePlaying = True,
                                  recorderState = Recording,
                                  animationPending = True,
                                  checkEndActive = True,
                                  startTime = dateNow e,
                                  recordingDurationSec =
                                    num_div (duration v) (video (playbackRates p))\<rparr>))))"

text \<open>
  \<open>drawFrame\<close>, as the animation-frame callback: it draws and asks for the next frame while
  the recorder records.
\<close>

definition drawFrame :: "capture \<Rightarrow> capture" where
  "drawFrame c = c\<lparr>animationPending := (recorderState c = Recording)\<rparr>"

text \<open>
  One run of the interval callback \<open>checkEnd\<close>, with the reading \<open>now\<close> of \<open>Date.now()\<close>;
  \<open>elapsedAt\<close> is the elapsed time in seconds that it computes from the reading.
\<close>

abbreviation elapsedAt :: "capture \<Rightarrow> int \<Rightarrow> real" where
  "elapsedAt c now \<equiv> real_of_int (now - startTime c) / 1000"

fun checkEnd :: "int \<Rightarrow> player \<times> capture \<Rightarrow> player \<times> capture" where
  "checkEnd now (p, c) =
     (let elapsed = Fin (elapsedAt c now);
          p1 = p\<lparr>recordingProgress :=
                   num_mul (num_div elapsed (recordingDurationSec c)) (Fin 100)\<rparr>
      in if num_ge elapsed (recordingDurationSec c)
         then (p1\<lparr>videoRef := map_option (\<lambda>v. v\<lparr>paused := True\<rparr>) (videoRef p1)\<rparr>,
               c\<lparr>checkEndActive := False, animationPending := False,
                 recorderState := Inactive, sourcePlaying := False\<rparr>)
         else (p1, c))"

declare checkEnd.simps [simp del]

text \<open>The recorder's \<open>onstop\<close> handler (the download of the file itself is left out).\<close>

fun onstop :: "player \<times> capture \<Rightarrow> player \<times> capture" where
  "onstop (p, c) =
     (p\<lparr>isRecording := False,
        videoRef := map_option (\<lambda>v. v\<lparr>currentTime := Fin 0\<rparr>) (videoRef p),
        audioRef := map_option (\<lambda>a. a\<lparr>currentTime := Fin 0\<rparr>) (audioRef p)\<rparr>,
      c\<lparr>audioContext := Closed\<rparr>)"

text \<open>
  The interval: the callback runs at each reading of the clock in the list, as long as the
  interval has not been cleared.
\<close>

fun poll :: "int list \<Rightarrow> player \<times> capture \<Rightarrow> player \<times> capture" where
  "poll [] s = s"
| "poll (t # ts) s = (if checkEndActive (snd s) then poll ts (checkEnd t s) else s)"

text \<open>
  The progress shown during the export is the width of the bar at line 305,
  \<open>Math.min(recordingProgress, 100)\<close> percent.
\<close>

definition barWidth :: "player \<Rightarrow> num" where
  "barWidth p = num_min (recordingProgress p) (Fin 100)"

text \<open>
  The states of the player that an export passes through while the interval is installed:
  the state in which the interval starts, then the state after each run of the callback.
\<close>

fun stateTrace :: "int list \<Rightarrow> player \<times> capture \<Rightarrow> player list" where
  "stateTrace [] s = [fst s]"
| "stateTrace (t # ts) s =
     fst s # (if checkEndActive (snd s) then stateTrace ts (checkEnd t s) else [])"

text \<open>
  The widths shown during an export: the one shown when the recording starts, then the one
  shown after each run of the callback.
\<close>

definition progressTrace :: "int list \<Rightarrow> player \<times> capture \<Rightarrow> num list" where
  "progressTrace ts s = map barWidth (stateTrace ts s)"

text \<open>
  For stating what the traces are: the percentage \<open>elapsed / target * 100\<close> of line 251 at a
  reading of the clock, for a recording started at \<open>start\<close> with a target of \<open>d\<close> seconds,
  and the readings at which the callback runs, which are those before the target is reached
  and the first one that reaches it.
\<close>

definition percentAt :: "int \<Rightarrow> real \<Rightarrow> int \<Rightarrow> real" where
  "percentAt start d t = real_of_int (t - start) / 1000 / d * 100"

definition ticksRun :: "int \<Rightarrow> real \<Rightarrow> int list \<Rightarrow> int list" where
  "ticksRun start d ts =
     takeWhile (\<lambda>t. real_of_int (t - start) / 1000 < d) ts
     @ take 1 (dropWhile (\<lambda>t. real_of_int (t - start) / 1000 < d) ts)"

text \<open>
  Readings of the clock that are at most 100 ms apart, the first at most 100 ms after \<open>t\<close>:
  the interval firing on time.
\<close>

fun spaced :: "int \<Rightarrow> int list \<Rightarrow> bool" where
  "spaced t [] = True"
| "spaced t (u # us) = (t \<le> u \<and> u - t \<le> 100 \<and> spaced u us)"


section \<open>Example states\<close>

text \<open>
  A mounted player with a dub, in its initial state (lines 15 to 21), whose elements report
  the durations \<open>vd\<close> and \<open>ad\<close>.
\<close>

definition mounted :: "real \<Rightarrow> real \<Rightarrow> player" where
  "mounted vd ad =
     \<lparr>audioUrl = Some ''blob:dub'',
      videoRef = Some \<lparr>duration = Fin vd, currentTime = Fin 0, playbackRate = Fin 1,
                       muted = False, paused = True, videoWidth = 1280, videoHeight = 720\<rparr>,
      audioRef = Some \<lparr>duration = Fin ad, currentTime = Fin 0, playbackRate = Fin 1,
                       muted = False, paused = True\<rparr>,
      canvasRef = Some \<lparr>width = 300, height = 150\<rparr>,
      isPlaying = False,
      isMuted = True,
      progress = Fin 0,
      durationState = Fin 0,
      playbackRates = \<lparr>video = Fin 1, audio = Fin 1\<rparr>,
      isRecording = False,
      recordingProgress = Fin 0\<rparr>"

text \<open>The same player without a dub: no URL and no audio element.\<close>

definition original :: "real \<Rightarrow> player" where
  "original vd = (mounted vd 0)\<lparr>audioUrl := None, audioRef := None\<rparr>"

text \<open>A player whose video stands at \<open>vp\<close> seconds and whose audio stands at \<open>ap\<close>.\<close>

definition at_positions :: "real \<Rightarrow> real \<Rightarrow> player \<Rightarrow> player" where
  "at_positions vp ap p =
     p\<lparr>videoRef := map_option (\<lambda>v. v\<lparr>currentTime := Fin vp\<rparr>) (videoRef p),
       audioRef := map_option (\<lambda>a. a\<lparr>currentTime := Fin ap\<rparr>) (audioRef p)\<rparr>"

text \<open>A recording that started at clock reading 0 and is to last \<open>d\<close> seconds.\<close>

definition recording :: "real \<Rightarrow> capture" where
  "recording d =
     \<lparr>audioContext = Running, sourceRate = Fin 1, sourcePlaying = True,
      recorderState = Recording, animationPending = True, checkEndActive = True,
      startTime = 0, recordingDurationSec = Fin d\<rparr>"

text \<open>
  An environment in which the dub is fetched and decoded and the recorder is accepted, the
  clock reading \<open>now\<close> at the start.
\<close>

definition succeeding :: "int \<Rightarrow> env" where
  "succeeding now = \<lparr>fetchOk = True, decodeOk = True, mimeSupported = True, dateNow = now\<rparr>"

text \<open>
  A player after a first complete export: a video and a dub of 0.25 s, exported from clock
  reading 0 with the interval running at 100, 200 and 300 ms, then \<open>onstop\<close>.
\<close>

definition exported :: player where
  "exported =
     fst (onstop (poll [100, 200, 300]
            (fst (handleDownloadVideo (succeeding 0) (mounted (1 / 4) (1 / 4))),
             recording (1 / 4))))"


section \<open>Synchronised rates\<close>

lemma syncDurations_known:
  assumes "map_option duration (videoRef p) = Some (Fin vd)"
    and "map_option duration (audioRef p) = Some (Fin ad)"
    and "url_truthy (audioUrl p)" and "0 < vd" and "0 < ad"
  shows "syncDurations p =
           p\<lparr>playbackRates := newRates (Fin vd) (Fin ad),
             videoRef := map_option
                 (\<lambda>v. v\<lparr>playbackRate := video (newRates (Fin vd) (Fin ad)), muted := True\<rparr>)
                 (videoRef p),
             audioRef := map_option
                 (\<lambda>a. a\<lparr>playbackRate := audio (newRates (Fin vd) (Fin ad))\<rparr>) (audioRef p),
             isMuted := True\<rparr>"
proof -
  from assms(1) obtain v where v: "videoRef p = Some v" "duration v = Fin vd"
    by (cases "videoRef p") auto
  from assms(2) obtain a where a: "audioRef p = Some a" "duration a = Fin ad"
    by (cases "audioRef p") auto
  from v a assms(3-5) show ?thesis
    by (simp add: syncDurations_def Let_def)
qed

lemma newRates_longer_audio:
  "0 < vd \<Longrightarrow> vd < ad \<Longrightarrow> newRates (Fin vd) (Fin ad) = \<lparr>video = Fin 1, audio = Fin (ad / vd)\<rparr>"
  by (simp add: newRates_def)

lemma newRates_longer_video:
  "0 < ad \<Longrightarrow> ad \<le> vd \<Longrightarrow> newRates (Fin vd) (Fin ad) = \<lparr>video = Fin (vd / ad), audio = Fin 1\<rparr>"
  by (simp add: newRates_def)

lemma mounted_durations:
  "map_option duration (videoRef (mounted vd ad)) = Some (Fin vd)"
  "map_option duration (audioRef (mounted vd ad)) = Some (Fin ad)"
  "url_truthy (audioUrl (mounted vd ad))"
  by (simp_all add: mounted_def)

text \<open>
  C1. For positive finite durations, the rates that \<open>syncDurations\<close> stores and applies to
  the two elements make both tracks last equally long: the video's duration divided by the
  video's rate and the audio's duration divided by the audio's rate are finite and differ by
  at most 0.001 seconds (in exact arithmetic they are equal).
\<close>

theorem syncDurations_equal_length:
  assumes "map_option duration (videoRef p) = Some (Fin vd)"
    and "map_option duration (audioRef p) = Some (Fin ad)"
    and "url_truthy (audioUrl p)" and "0 < vd" and "0 < ad"
  shows "\<exists>tv ta.
           num_div (Fin vd) (video (playbackRates (syncDurations p))) = Fin tv
         \<and> num_div (Fin ad) (audio (playbackRates (syncDurations p))) = Fin ta
         \<and> \<bar>tv - ta\<bar> \<le> 1 / 1000
         \<and> map_option playbackRate (videoRef (syncDurations p))
             = Some (video (playbackRates (syncDurations p)))
         \<and> map_option playbackRate (audioRef (syncDurations p))
             = Some (audio (playbackRates (syncDurations p)))"
proof -
  from assms(1) obtain v where v: "videoRef p = Some v" by (cases "videoRef p") auto
  from assms(2) obtain a where a: "audioRef p = Some a" by (cases "audioRef p") auto
  show ?thesis
  proof (cases "vd < ad")
    case True
    with assms v a show ?thesis
      by (simp add: syncDurations_known newRates_longer_audio)
  next
    case False
    with assms v a show ?thesis
      by (simp add: syncDurations_known newRates_longer_video)
  qed
qed

theorem syncDurations_equal_length_witness:
  "\<exists>tv ta.
     num_div (Fin 10) (video (playbackRates (syncDurations (mounted 10 20)))) = Fin tv
   \<and> num_div (Fin 20) (audio (playbackRates (syncDurations (mounted 10 20)))) = Fin ta
   \<and> \<bar>tv - ta\<bar> \<le> 1 / 1000
   \<and> map_option playbackRate (videoRef (syncDurations (mounted 10 20)))
       = Some (video (playbackRates (syncDurations (mounted 10 20))))
   \<and> map_option playbackRate (audioRef (syncDurations (mounted 10 20)))
       = Some (audio (playbackRates (syncDurations (mounted 10 20))))"
  by (rule syncDurations_equal_length) (simp_all add: mounted_durations)



text \<open>
  C3, as the code has it. For positive finite durations that differ, exactly one of the two
  rates is greater than 1 and the other is exactly 1; both rates are exactly 1 when the
  durations are equal. No tolerance is applied to the comparison of the durations.
\<close>

theorem syncDurations_one_accelerated:
  assumes "map_option duration (videoRef p) = Some (Fin vd)"
    and "map_option duration (audioRef p) = Some (Fin ad)"
    and "url_truthy (audioUrl p)" and "0 < vd" and "0 < ad"
  shows "\<exists>rv ra.
           playbackRates (syncDurations p) = \<lparr>video = Fin rv, audio = Fin ra\<rparr>
         \<and> (if vd = ad then rv = 1 \<and> ra = 1
            else (1 < rv \<and> ra = 1) \<noteq> (1 < ra \<and> rv = 1))"
proof (cases "vd < ad")
  case True
  with assms show ?thesis
    by (simp add: syncDurations_known newRates_longer_audio)
next
  case False
  with assms show ?thesis
    by (auto simp: syncDurations_known newRates_longer_video)
qed

theorem syncDurations_one_accelerated_witness:
  "\<exists>rv ra.
     playbackRates (syncDurations (mounted 12 12)) = \<lparr>video = Fin rv, audio = Fin ra\<rparr>
   \<and> (if (12::real) = 12 then rv = 1 \<and> ra = 1
      else (1 < rv \<and> ra = 1) \<noteq> (1 < ra \<and> rv = 1))"
  by (rule syncDurations_one_accelerated) (simp_all add: mounted_durations)

text \<open>
  C3, as stated, fails twice. For a video of 10 s and an audio of 20 s both rates are at
  least 1, not exactly one of them. For a video of 12 s and an audio of 12.0005 s, equal
  within 0.001 s, the audio's rate is not 1.
\<close>

theorem syncDurations_exactly_one_counterexample:
  "\<not> (num_ge (video (playbackRates (syncDurations (mounted 10 20)))) (Fin 1)
       \<noteq> num_ge (audio (playbackRates (syncDurations (mounted 10 20)))) (Fin 1))
   \<and> \<not> \<bar>(10::real) - 20\<bar> \<le> 1 / 1000
   \<and> \<bar>(12::real) - 12.0005\<bar> \<le> 1 / 1000
   \<and> audio (playbackRates (syncDurations (mounted 12 12.0005))) \<noteq> Fin 1"
  by (simp add: syncDurations_def mounted_def newRates_def Let_def)


section \<open>Seeking and drift correction\<close>

text \<open>
  C4. For a percentage between 0 and 100 and a video of known finite duration,
  \<open>handleSeek\<close> puts the video at that percentage of the video's own duration; an audio
  element of finite duration is put at the same percentage of its own duration, so that both
  tracks stand at the fraction percent/100 of their durations when these are positive. The
  audio element is left as it is when its duration is not finite. In particular, 50 percent
  on a video of 10 s with an audio of 20 s gives the positions 5 s and 10 s.
\<close>

theorem handleSeek_positions:
  assumes "map_option duration (videoRef p) = Some (Fin vd)"
    and "0 \<le> pct" and "pct \<le> 100"
  shows "\<exists>p'. handleSeek (Fin pct) p = Inr p'
         \<and> map_option currentTime (videoRef p') = Some (Fin (pct / 100 * vd))
         \<and> progress p' = Fin pct
         \<and> (case audioRef p of
               None \<Rightarrow> audioRef p' = None
             | Some a \<Rightarrow>
                 (case duration a of
                    Fin ad \<Rightarrow>
                      audioRef p' = Some (a\<lparr>currentTime := Fin (pct / 100 * ad)\<rparr>)
                      \<and> (if 0 < vd \<and> 0 < ad
                         then num_div (Fin (pct / 100 * vd)) (Fin vd) = Fin (pct / 100)
                            \<and> num_div (Fin (pct / 100 * ad)) (Fin ad) = Fin (pct / 100)
                         else True)
                  | _ \<Rightarrow> audioRef p' = Some a))"
proof -
  from assms(1) obtain v where v: "videoRef p = Some v" "duration v = Fin vd"
    by (cases "videoRef p") auto
  show ?thesis
  proof (cases "audioRef p")
    case None
    with v show ?thesis
      by (simp add: handleSeek_def set_currentTime_def Let_def)
  next
    case (Some a)
    with v show ?thesis
      by (cases "duration a") (simp_all add: handleSeek_def set_currentTime_def Let_def)
  qed
qed

theorem handleSeek_positions_witness:
  "\<exists>p'. handleSeek (Fin 50) (syncDurations (mounted 10 20)) = Inr p'
   \<and> map_option currentTime (videoRef p') = Some (Fin 5)
   \<and> map_option currentTime (audioRef p') = Some (Fin 10)"
proof -
  have "map_option duration (videoRef (syncDurations (mounted 10 20))) = Some (Fin 10)"
    by (simp add: syncDurations_def mounted_def Let_def)
  from handleSeek_positions [OF this, of 50]
  show ?thesis
    by (auto simp: syncDurations_def mounted_def Let_def)
qed


lemma drift_changes_position:
  fixes vp vd ap ad :: real
  assumes "0 < ad" and "5 / 100 < \<bar>vp / vd - ap / ad\<bar>"
  shows "vp / vd * ad \<noteq> ap"
proof
  assume "vp / vd * ad = ap"
  with assms(1) have "ap / ad = vp / vd" by auto
  with assms(2) show False by simp
qed

text \<open>
  C5, as the code has it. On a \<open>timeupdate\<close> of the video with a dub present, both durations
  finite and positive and both positions finite, \<open>handleTimeUpdate\<close> changes the audio's
  position if and only if the fractions of the two tracks differ by more than 0.05, and then
  to the video's fraction of the audio's duration; the video element is never changed. The
  handler does not consult the play state: this holds whether \<open>isPlaying\<close> is true or false.
\<close>

theorem handleTimeUpdate_drift:
  assumes "videoRef p = Some v" and "audioRef p = Some a" and "url_truthy (audioUrl p)"
    and "duration v = Fin vd" and "0 < vd" and "duration a = Fin ad" and "0 < ad"
    and "currentTime v = Fin vp" and "currentTime a = Fin ap"
  shows "\<exists>p'. handleTimeUpdate (p\<lparr>isPlaying := playing\<rparr>) = Inr p'
         \<and> videoRef p' = Some v
         \<and> isPlaying p' = playing
         \<and> audioRef p' =
             Some (a\<lparr>currentTime :=
                       (if 5 / 100 < \<bar>vp / vd - ap / ad\<bar> then Fin (vp / vd * ad) else Fin ap)\<rparr>)
         \<and> (audioRef p' \<noteq> Some a) = (5 / 100 < \<bar>vp / vd - ap / ad\<bar>)"
proof (cases "5 / 100 < \<bar>vp / vd - ap / ad\<bar>")
  case True
  from drift_changes_position [OF assms(7) True]
  have "a\<lparr>currentTime := Fin (vp / vd * ad)\<rparr> \<noteq> a"
    using assms(9) by (metis media.select_convs(2) media.surjective media.update_convs(2) num.inject)
  with True assms show ?thesis
    by (simp add: handleTimeUpdate_def set_currentTime_def Let_def)
next
  case False
  with assms show ?thesis
    by (simp add: handleTimeUpdate_def set_currentTime_def Let_def)
qed

theorem handleTimeUpdate_drift_witness:
  "\<exists>p'. handleTimeUpdate ((at_positions 6 10 (syncDurations (mounted 10 20)))\<lparr>isPlaying := True\<rparr>)
           = Inr p'
   \<and> map_option currentTime (audioRef p') = Some (Fin 12)"
proof -
  let ?p = "at_positions 6 10 (syncDurations (mounted 10 20))"
  have "\<exists>v a. videoRef ?p = Some v \<and> audioRef ?p = Some a \<and> url_truthy (audioUrl ?p)
          \<and> duration v = Fin 10 \<and> duration a = Fin 20
          \<and> currentTime v = Fin 6 \<and> currentTime a = Fin 10"
    by (simp add: at_positions_def syncDurations_def mounted_def Let_def)
  then obtain v a where h: "videoRef ?p = Some v" "audioRef ?p = Some a"
      "url_truthy (audioUrl ?p)" "duration v = Fin 10" "duration a = Fin 20"
      "currentTime v = Fin 6" "currentTime a = Fin 10"
    by blast
  from handleTimeUpdate_drift [OF h(1-4) _ h(5) _ h(6,7), of True]
  show ?thesis by auto
qed

text \<open>
  C5, as stated, fails: the correction is not suspended while the player is paused. With
  \<open>isPlaying\<close> false, the video at 5 s of 10 s and the audio at 0 s of 20 s, the handler
  moves the audio to 10 s. (This is the state of the preview during an export, where the
  video plays for the recorder while the audio element stays paused.)
\<close>

theorem handleTimeUpdate_paused_counterexample:
  "isPlaying (at_positions 5 0 (mounted 10 20)) = False
   \<and> handleTimeUpdate (at_positions 5 0 (mounted 10 20))
       = Inr ((at_positions 5 10 (mounted 10 20))\<lparr>durationState := Fin 10, progress := Fin 50\<rparr>)
   \<and> audioRef (at_positions 5 10 (mounted 10 20)) \<noteq> audioRef (at_positions 5 0 (mounted 10 20))"
  by (simp add: handleTimeUpdate_def set_currentTime_def at_positions_def mounted_def Let_def)


section \<open>Muting\<close>

text \<open>
  C9. \<open>toggleMute\<close> changes nothing but the video element's \<open>muted\<close> flag and the state
  \<open>isMuted\<close>: the stored rates, the play state and the audio element are the same, the video
  element is the same up to \<open>muted\<close> (so its rate, position and paused flag are kept), and
  the whole state is the same up to the video element and \<open>isMuted\<close>. And when
  \<open>syncDurations\<close> runs with a dub whose duration, like the video's, is loaded (neither
  \<open>NaN\<close>, zero nor infinite), the video element ends muted and \<open>isMuted\<close> is true.
\<close>

theorem toggleMute_frame:
  "playbackRates (toggleMute p) = playbackRates p
   \<and> isPlaying (toggleMute p) = isPlaying p
   \<and> audioRef (toggleMute p) = audioRef p
   \<and> map_option playbackRate (videoRef (toggleMute p)) = map_option playbackRate (videoRef p)
   \<and> map_option currentTime (videoRef (toggleMute p)) = map_option currentTime (videoRef p)
   \<and> map_option paused (videoRef (toggleMute p)) = map_option paused (videoRef p)
   \<and> map_option (\<lambda>v. v\<lparr>muted := m\<rparr>) (videoRef (toggleMute p))
       = map_option (\<lambda>v. v\<lparr>muted := m\<rparr>) (videoRef p)
   \<and> (toggleMute p)\<lparr>videoRef := r, isMuted := b\<rparr> = p\<lparr>videoRef := r, isMuted := b\<rparr>
   \<and> (map_option (\<lambda>x. truthy (duration x) \<and> duration x \<noteq> PosInf) (videoRef q) = Some True
        \<and> map_option (\<lambda>x. truthy (duration x) \<and> duration x \<noteq> PosInf) (audioRef q) = Some True
        \<and> url_truthy (audioUrl q)
      \<longrightarrow> map_option muted (videoRef (syncDurations q)) = Some True
          \<and> isMuted (syncDurations q))"
proof -
  have frame: "playbackRates (toggleMute p) = playbackRates p
     \<and> isPlaying (toggleMute p) = isPlaying p
     \<and> audioRef (toggleMute p) = audioRef p
     \<and> map_option playbackRate (videoRef (toggleMute p)) = map_option playbackRate (videoRef p)
     \<and> map_option currentTime (videoRef (toggleMute p)) = map_option currentTime (videoRef p)
     \<and> map_option paused (videoRef (toggleMute p)) = map_option paused (videoRef p)
     \<and> map_option (\<lambda>v. v\<lparr>muted := m\<rparr>) (videoRef (toggleMute p))
         = map_option (\<lambda>v. v\<lparr>muted := m\<rparr>) (videoRef p)
     \<and> (toggleMute p)\<lparr>videoRef := r, isMuted := b\<rparr> = p\<lparr>videoRef := r, isMuted := b\<rparr>"
    by (cases "videoRef p") (simp_all add: toggleMute_def)
  have forced: "map_option muted (videoRef (syncDurations q)) = Some True
          \<and> isMuted (syncDurations q)"
    if "map_option (\<lambda>x. truthy (duration x) \<and> duration x \<noteq> PosInf) (videoRef q) = Some True"
      and "map_option (\<lambda>x. truthy (duration x) \<and> duration x \<noteq> PosInf) (audioRef q) = Some True"
      and "url_truthy (audioUrl q)"
  proof -
    from that(1) obtain v where v: "videoRef q = Some v" "truthy (duration v)"
        "duration v \<noteq> PosInf"
      by (cases "videoRef q") auto
    from that(2) obtain a where a: "audioRef q = Some a" "truthy (duration a)"
        "duration a \<noteq> PosInf"
      by (cases "audioRef q") auto
    from v a that(3) show ?thesis
      by (simp add: syncDurations_def Let_def)
  qed
  from frame forced show ?thesis by blast
qed

theorem toggleMute_frame_witness:
  "map_option muted (videoRef (syncDurations (toggleMute (mounted 10 20)))) = Some True
   \<and> isMuted (syncDurations (toggleMute (mounted 10 20)))
   \<and> map_option muted (videoRef (toggleMute (syncDurations (mounted 10 20)))) = Some False
   \<and> playbackRates (toggleMute (syncDurations (mounted 10 20)))
       = \<lparr>video = Fin 1, audio = Fin 2\<rparr>"
proof -
  have "map_option (\<lambda>x. truthy (duration x) \<and> duration x \<noteq> PosInf)
          (videoRef (toggleMute (mounted 10 20))) = Some True
      \<and> map_option (\<lambda>x. truthy (duration x) \<and> duration x \<noteq> PosInf)
          (audioRef (toggleMute (mounted 10 20))) = Some True
      \<and> url_truthy (audioUrl (toggleMute (mounted 10 20)))"
    by (simp add: toggleMute_def mounted_def)
  with toggleMute_frame [of "syncDurations (mounted 10 20)" _ _ _ "toggleMute (mounted 10 20)"]
  have "map_option muted (videoRef (syncDurations (toggleMute (mounted 10 20)))) = Some True
      \<and> isMuted (syncDurations (toggleMute (mounted 10 20)))
      \<and> playbackRates (toggleMute (syncDurations (mounted 10 20)))
          = playbackRates (syncDurations (mounted 10 20))"
    by blast
  moreover have "map_option muted (videoRef (toggleMute (syncDurations (mounted 10 20))))
      = Some False"
    by (simp add: toggleMute_def syncDurations_def mounted_def newRates_def Let_def)
  moreover have "playbackRates (syncDurations (mounted 10 20)) = \<lparr>video = Fin 1, audio = Fin 2\<rparr>"
    by (simp add: syncDurations_def mounted_def newRates_def Let_def)
  ultimately show ?thesis by simp
qed


section \<open>Export: the guard and the failure paths\<close>

text \<open>
  C10. When the video element, the audio element or a usable dub URL is missing,
  \<open>handleDownloadVideo\<close> returns at once: the state is the one it was called in (no
  recording flag, no pause, no repositioning) and nothing is created, whatever the
  environment.
\<close>

theorem handleDownloadVideo_guard:
  assumes "videoRef p = None \<or> audioRef p = None \<or> \<not> url_truthy (audioUrl p)"
  shows "handleDownloadVideo e p = (p, Returned)"
  using assms by (auto simp: handleDownloadVideo_def split: option.splits)

theorem handleDownloadVideo_guard_witness:
  "handleDownloadVideo \<lparr>fetchOk = True, decodeOk = True, mimeSupported = True, dateNow = 0\<rparr>
     (original 10) = (original 10, Returned)"
  by (rule handleDownloadVideo_guard) (simp add: original_def mounted_def)

text \<open>
  C7 at the failing input: the dub cannot be fetched. The promise rejects after the audio
  context was created, and nothing closes it: the context is left running and
  \<open>isRecording\<close> stays true. The same happens when decoding fails and when the recorder
  refuses the container. (On the path that succeeds, \<open>onstop\<close> closes the context and
  resets both positions.)
\<close>

theorem handleDownloadVideo_fetch_failure_leaks:
  "snd (handleDownloadVideo
          \<lparr>fetchOk = False, decodeOk = True, mimeSupported = True, dateNow = 0\<rparr>
          (syncDurations (mounted 10 20)))
     = Rejected NetworkError Running
   \<and> isRecording (fst (handleDownloadVideo
          \<lparr>fetchOk = False, decodeOk = True, mimeSupported = True, dateNow = 0\<rparr>
          (syncDurations (mounted 10 20))))
   \<and> snd (handleDownloadVideo
          \<lparr>fetchOk = True, decodeOk = False, mimeSupported = True, dateNow = 0\<rparr>
          (syncDurations (mounted 10 20)))
     = Rejected EncodingError Running
   \<and> snd (handleDownloadVideo
          \<lparr>fetchOk = True, decodeOk = True, mimeSupported = False, dateNow = 0\<rparr>
          (syncDurations (mounted 10 20)))
     = Rejected NotSupportedError Running"
  by (simp add: handleDownloadVideo_def syncDurations_def mounted_def newRates_def Let_def)


section \<open>Export: the stop check\<close>

lemma checkEnd_continue:
  assumes "recordingDurationSec c = Fin d" and "elapsedAt c t < d"
  shows "checkEnd t (p, c)
           = (p\<lparr>recordingProgress := num_mul (num_div (Fin (elapsedAt c t)) (Fin d)) (Fin 100)\<rparr>, c)"
  using assms by (simp add: checkEnd.simps Let_def)

lemma checkEnd_stop:
  assumes "recordingDurationSec c = Fin d" and "d \<le> elapsedAt c t"
  shows "checkEnd t (p, c)
           = (p\<lparr>recordingProgress := num_mul (num_div (Fin (elapsedAt c t)) (Fin d)) (Fin 100),
                videoRef := map_option (\<lambda>v. v\<lparr>paused := True\<rparr>) (videoRef p)\<rparr>,
              c\<lparr>checkEndActive := False, animationPending := False,
                recorderState := Inactive, sourcePlaying := False\<rparr>)"
  using assms by (simp add: checkEnd.simps Let_def)

lemma drawFrame_after_stop: "recorderState c = Inactive \<Longrightarrow> \<not> animationPending (drawFrame c)"
  by (simp add: drawFrame_def)

lemma poll_inactive: "\<not> checkEndActive (snd s) \<Longrightarrow> poll ts s = s"
  by (cases ts) simp_all

lemma poll_reaches_stop:
  assumes "checkEndActive c" and "recordingDurationSec c = Fin d"
    and "spaced l ts" and "elapsedAt c l \<le> d"
    and "\<exists>t\<in>set ts. d \<le> elapsedAt c t"
  shows "\<exists>pre t post. ts = pre @ t # post
         \<and> snd (poll pre (p, c)) = c
         \<and> videoRef (fst (poll pre (p, c))) = videoRef p
         \<and> d \<le> elapsedAt c t \<and> elapsedAt c t \<le> d + 1 / 10
         \<and> poll (pre @ [t]) (p, c) = checkEnd t (poll pre (p, c))
         \<and> poll ts (p, c) = checkEnd t (poll pre (p, c))"
  using assms(3-5)
proof (induction ts arbitrary: l p)
  case Nil
  then show ?case by simp
next
  case (Cons u us)
  from Cons.prems(1) have gap: "l \<le> u" "u - l \<le> 100" and rest: "spaced u us"
    by simp_all
  show ?case
  proof (cases "d \<le> elapsedAt c u")
    case True
    from gap(2) have "real_of_int (u - l) \<le> 100"
      by (metis of_int_le_iff of_int_numeral)
    then have "elapsedAt c u - elapsedAt c l \<le> 1 / 10"
      by (simp add: field_simps)
    with Cons.prems(2) have near: "elapsedAt c u \<le> d + 1 / 10"
      by linarith
    have "\<not> checkEndActive (snd (checkEnd u (p, c)))"
      using True assms(2) by (simp add: checkEnd_stop)
    then have "poll us (checkEnd u (p, c)) = checkEnd u (p, c)"
      by (rule poll_inactive)
    with True near assms(1) have "u # us = [] @ u # us
         \<and> snd (poll [] (p, c)) = c
         \<and> videoRef (fst (poll [] (p, c))) = videoRef p
         \<and> d \<le> elapsedAt c u \<and> elapsedAt c u \<le> d + 1 / 10
         \<and> poll ([] @ [u]) (p, c) = checkEnd u (poll [] (p, c))
         \<and> poll (u # us) (p, c) = checkEnd u (poll [] (p, c))"
      by simp
    then show ?thesis by blast
  next
    case False
    then have below: "elapsedAt c u < d" by simp
    let ?p1 = "p\<lparr>recordingProgress :=
                    num_mul (num_div (Fin (elapsedAt c u)) (Fin d)) (Fin 100)\<rparr>"
    have step: "checkEnd u (p, c) = (?p1, c)"
      using assms(2) below by (rule checkEnd_continue)
    from Cons.prems(3) False have later: "\<exists>t\<in>set us. d \<le> elapsedAt c t"
      by auto
    from below have "elapsedAt c u \<le> d" by simp
    from Cons.IH [OF rest this later, of ?p1]
    obtain pre t post where ih: "us = pre @ t # post"
        "snd (poll pre (?p1, c)) = c"
        "videoRef (fst (poll pre (?p1, c))) = videoRef ?p1"
        "d \<le> elapsedAt c t" "elapsedAt c t \<le> d + 1 / 10"
        "poll (pre @ [t]) (?p1, c) = checkEnd t (poll pre (?p1, c))"
        "poll us (?p1, c) = checkEnd t (poll pre (?p1, c))"
      by blast
    from ih step assms(1) have "u # us = (u # pre) @ t # post
         \<and> snd (poll (u # pre) (p, c)) = c
         \<and> videoRef (fst (poll (u # pre) (p, c))) = videoRef p
         \<and> d \<le> elapsedAt c t \<and> elapsedAt c t \<le> d + 1 / 10
         \<and> poll ((u # pre) @ [t]) (p, c) = checkEnd t (poll (u # pre) (p, c))
         \<and> poll (u # us) (p, c) = checkEnd t (poll (u # pre) (p, c))"
      by simp
    then show ?thesis by blast
  qed
qed

lemma handleDownloadVideo_started:
  assumes "map_option duration (videoRef p) = Some dur" and "audioRef p \<noteq> None"
    and "url_truthy (audioUrl p)" and "canvasRef p \<noteq> None"
    and "fetchOk e" and "decodeOk e" and "mimeSupported e"
  shows "\<exists>p0 c. handleDownloadVideo e p = (p0, Started c)
         \<and> videoRef p0 \<noteq> None
         \<and> map_option currentTime (videoRef p0) = Some (Fin 0)
         \<and> map_option currentTime (audioRef p0) = Some (Fin 0)
         \<and> isRecording p0 \<and> recordingProgress p0 = recordingProgress p
         \<and> checkEndActive c \<and> startTime c = dateNow e
         \<and> recordingDurationSec c = num_div dur (video (playbackRates p))
         \<and> recorderState c = Recording \<and> audioContext c = Running
         \<and> sourcePlaying c \<and> animationPending c
         \<and> sourceRate c = audio (playbackRates p)"
proof -
  from assms(1) obtain v where v: "videoRef p = Some v" "duration v = dur"
    by (cases "videoRef p") auto
  from assms(2) obtain a where a: "audioRef p = Some a" by auto
  from assms(4) obtain cv where cv: "canvasRef p = Some cv" by auto
  from v a cv assms(3,5-7) show ?thesis
    by (simp add: handleDownloadVideo_def Let_def)
qed

lemma poll_stops:
  assumes "checkEndActive c" and "recordingDurationSec c = Fin d" and "0 \<le> d"
    and "spaced (startTime c) ts"
    and "\<exists>t\<in>set ts. d \<le> elapsedAt c t"
    and "videoRef p \<noteq> None"
  shows "\<exists>pre t post p' c'. ts = pre @ t # post
         \<and> snd (poll pre (p, c)) = c
         \<and> poll (pre @ [t]) (p, c) = (p', c')
         \<and> poll ts (p, c) = (p', c')
         \<and> d \<le> elapsedAt c t \<and> elapsedAt c t \<le> d + 1 / 10
         \<and> \<not> checkEndActive c' \<and> \<not> animationPending c'
         \<and> recorderState c' = Inactive \<and> \<not> sourcePlaying c'
         \<and> map_option paused (videoRef p') = Some True"
proof -
  from assms(3) have "elapsedAt c (startTime c) \<le> d" by simp
  from poll_reaches_stop [OF assms(1,2,4) this assms(5), of p]
  obtain pre t post where st: "ts = pre @ t # post"
      "snd (poll pre (p, c)) = c"
      "videoRef (fst (poll pre (p, c))) = videoRef p"
      "d \<le> elapsedAt c t" "elapsedAt c t \<le> d + 1 / 10"
      "poll (pre @ [t]) (p, c) = checkEnd t (poll pre (p, c))"
      "poll ts (p, c) = checkEnd t (poll pre (p, c))"
    by blast
  obtain q where q: "poll pre (p, c) = (q, c)"
    using st(2) by (cases "poll pre (p, c)") simp
  with st(3) assms(6) obtain v where v: "videoRef q = Some v"
    by (cases "videoRef q") auto
  let ?p' = "q\<lparr>recordingProgress := num_mul (num_div (Fin (elapsedAt c t)) (Fin d)) (Fin 100),
               videoRef := map_option (\<lambda>v. v\<lparr>paused := True\<rparr>) (videoRef q)\<rparr>"
  let ?c' = "c\<lparr>checkEndActive := False, animationPending := False,
               recorderState := Inactive, sourcePlaying := False\<rparr>"
  have stop: "checkEnd t (q, c) = (?p', ?c')"
    using assms(2) st(4) by (rule checkEnd_stop)
  have paused: "map_option paused (videoRef ?p') = Some True"
    using v by simp
  have flags: "\<not> checkEndActive ?c' \<and> \<not> animationPending ?c'
         \<and> recorderState ?c' = Inactive \<and> \<not> sourcePlaying ?c'"
    by simp
  have "poll (pre @ [t]) (p, c) = (?p', ?c')"
    using st(6) q stop by simp
  moreover have "poll ts (p, c) = (?p', ?c')"
    using st(7) q stop by simp
  ultimately have "ts = pre @ t # post
         \<and> snd (poll pre (p, c)) = c
         \<and> poll (pre @ [t]) (p, c) = (?p', ?c')
         \<and> poll ts (p, c) = (?p', ?c')
         \<and> d \<le> elapsedAt c t \<and> elapsedAt c t \<le> d + 1 / 10
         \<and> \<not> checkEndActive ?c' \<and> \<not> animationPending ?c'
         \<and> recorderState ?c' = Inactive \<and> \<not> sourcePlaying ?c'
         \<and> map_option paused (videoRef ?p') = Some True"
    using st(1,2,4,5) paused flags by blast
  then show ?thesis by blast
qed


text \<open>
  C6. Let an export start (both elements, the URL and the canvas present, the dub fetched
  and decoded, the recorder accepted) on a video of finite duration \<open>vd\<close> with the stored
  video rate \<open>rv > 0\<close>, and let the interval fire on time: readings of the clock at most
  100 ms apart, the first at most 100 ms after the start. The target is \<open>vd / rv\<close> seconds.
  If some reading reaches it, the interval runs up to a reading \<open>t\<close>: before \<open>t\<close> the
  capture is as it was started, the interval still active; at \<open>t\<close> the elapsed time is at
  least the target and at most the target plus 0.1 s, and the callback clears the interval,
  cancels the animation frame, stops the recorder and the audio source and pauses the video;
  later readings change nothing.
\<close>

theorem capture_stops_within_interval:
  assumes "map_option duration (videoRef p) = Some (Fin vd)" and "audioRef p \<noteq> None"
    and "url_truthy (audioUrl p)" and "canvasRef p \<noteq> None"
    and "fetchOk e" and "decodeOk e" and "mimeSupported e"
    and "video (playbackRates p) = Fin rv" and "0 \<le> vd" and "0 < rv"
    and "spaced (dateNow e) ts"
    and "\<exists>t\<in>set ts. vd / rv \<le> real_of_int (t - dateNow e) / 1000"
  shows "\<exists>p0 c pre t post p' c'.
           handleDownloadVideo e p = (p0, Started c)
         \<and> recordingDurationSec c = Fin (vd / rv)
         \<and> ts = pre @ t # post
         \<and> snd (poll pre (p0, c)) = c \<and> checkEndActive c \<and> recorderState c = Recording
         \<and> poll (pre @ [t]) (p0, c) = (p', c')
         \<and> poll ts (p0, c) = (p', c')
         \<and> vd / rv \<le> real_of_int (t - dateNow e) / 1000
         \<and> real_of_int (t - dateNow e) / 1000 \<le> vd / rv + 1 / 10
         \<and> \<not> checkEndActive c' \<and> \<not> animationPending c'
         \<and> recorderState c' = Inactive \<and> \<not> sourcePlaying c'
         \<and> map_option paused (videoRef p') = Some True"
proof -
  from handleDownloadVideo_started [OF assms(1-7)]
  obtain p0 c where st: "handleDownloadVideo e p = (p0, Started c)"
      "videoRef p0 \<noteq> None" "checkEndActive c" "startTime c = dateNow e"
      "recordingDurationSec c = num_div (Fin vd) (video (playbackRates p))"
      "recorderState c = Recording"
    by blast
  from st(5) assms(8,10) have d: "recordingDurationSec c = Fin (vd / rv)"
    by simp
  from assms(9,10) have nonneg: "0 \<le> vd / rv" by simp
  from assms(11) st(4) have sp: "spaced (startTime c) ts" by simp
  from assms(12) st(4) have reach: "\<exists>t\<in>set ts. vd / rv \<le> elapsedAt c t" by simp
  from poll_stops [OF st(3) d nonneg sp reach st(2)]
  obtain pre t post p' c' where "ts = pre @ t # post"
      "snd (poll pre (p0, c)) = c"
      "poll (pre @ [t]) (p0, c) = (p', c')"
      "poll ts (p0, c) = (p', c')"
      "vd / rv \<le> elapsedAt c t" "elapsedAt c t \<le> vd / rv + 1 / 10"
      "\<not> checkEndActive c'" "\<not> animationPending c'"
      "recorderState c' = Inactive" "\<not> sourcePlaying c'"
      "map_option paused (videoRef p') = Some True"
    by blast
  with st(1,3,4,6) d show ?thesis by auto
qed

theorem capture_stops_within_interval_witness:
  "\<exists>p0 c pre t post p' c'.
     handleDownloadVideo \<lparr>fetchOk = True, decodeOk = True, mimeSupported = True, dateNow = 0\<rparr>
       (mounted (1 / 4) (1 / 4)) = (p0, Started c)
   \<and> recordingDurationSec c = Fin (1 / 4 / 1)
   \<and> [100, 200, 300, 400] = pre @ t # post
   \<and> snd (poll pre (p0, c)) = c \<and> checkEndActive c \<and> recorderState c = Recording
   \<and> poll (pre @ [t]) (p0, c) = (p', c')
   \<and> poll [100, 200, 300, 400] (p0, c) = (p', c')
   \<and> 1 / 4 / 1 \<le> real_of_int
        (t - dateNow \<lparr>fetchOk = True, decodeOk = True, mimeSupported = True, dateNow = 0\<rparr>) / 1000
   \<and> real_of_int
        (t - dateNow \<lparr>fetchOk = True, decodeOk = True, mimeSupported = True, dateNow = 0\<rparr>) / 1000
       \<le> 1 / 4 / 1 + 1 / 10
   \<and> \<not> checkEndActive c' \<and> \<not> animationPending c'
   \<and> recorderState c' = Inactive \<and> \<not> sourcePlaying c'
   \<and> map_option paused (videoRef p') = Some True"
  by (rule capture_stops_within_interval) (simp_all add: mounted_def)

section \<open>Export: the progress shown\<close>

lemma stateTrace_inactive: "\<not> checkEndActive (snd s) \<Longrightarrow> stateTrace ts s = [fst s]"
  by (cases ts) simp_all

lemma ticksRun_Cons:
  "ticksRun start d (t # ts) =
     t # (if real_of_int (t - start) / 1000 < d then ticksRun start d ts else [])"
  by (simp add: ticksRun_def)

lemma ticksRun_prefix:
  "ticksRun start d ts
     = take (Suc (length (takeWhile (\<lambda>t. real_of_int (t - start) / 1000 < d) ts))) ts"
  by (induction ts) (simp_all add: ticksRun_def)

lemma checkEnd_isRecording: "isRecording (fst (checkEnd t s)) = isRecording (fst s)"
  by (cases s) (simp add: checkEnd.simps Let_def)

lemma stateTrace_isRecording:
  "isRecording (fst s) \<Longrightarrow> list_all isRecording (stateTrace ts s)"
  by (induction ts arbitrary: s) (simp_all add: checkEnd_isRecording)

lemma stateTrace_stored:
  assumes "checkEndActive c" and "recordingDurationSec c = Fin d" and "0 < d"
  shows "map recordingProgress (stateTrace ts (p, c))
           = recordingProgress p
             # map (\<lambda>t. Fin (percentAt (startTime c) d t)) (ticksRun (startTime c) d ts)"
proof (induction ts arbitrary: p)
  case Nil
  then show ?case by (simp add: ticksRun_def)
next
  case (Cons u us)
  show ?case
  proof (cases "d \<le> elapsedAt c u")
    case True
    from assms(2) True have stop: "checkEnd u (p, c)
        = (p\<lparr>recordingProgress := num_mul (num_div (Fin (elapsedAt c u)) (Fin d)) (Fin 100),
             videoRef := map_option (\<lambda>v. v\<lparr>paused := True\<rparr>) (videoRef p)\<rparr>,
           c\<lparr>checkEndActive := False, animationPending := False,
             recorderState := Inactive, sourcePlaying := False\<rparr>)"
      by (rule checkEnd_stop)
    then have "stateTrace us (checkEnd u (p, c)) = [fst (checkEnd u (p, c))]"
      by (simp add: stateTrace_inactive)
    with stop True assms(1,3) show ?thesis
      by (simp add: ticksRun_Cons percentAt_def)
  next
    case False
    then have below: "elapsedAt c u < d" by simp
    let ?p1 = "p\<lparr>recordingProgress :=
                    num_mul (num_div (Fin (elapsedAt c u)) (Fin d)) (Fin 100)\<rparr>"
    have step: "checkEnd u (p, c) = (?p1, c)"
      using assms(2) below by (rule checkEnd_continue)
    from Cons.IH [of ?p1] step below assms(1,3) show ?thesis
      by (simp add: ticksRun_Cons percentAt_def)
  qed
qed

lemma percentAt_sorted:
  assumes "sorted (start # ts)" and "0 < d"
  shows "sorted (map (percentAt start d) (start # ticksRun start d ts))"
proof -
  have "start # ticksRun start d ts
          = take (Suc (Suc (length (takeWhile (\<lambda>t. real_of_int (t - start) / 1000 < d) ts))))
              (start # ts)"
    by (simp add: ticksRun_prefix)
  with assms(1) have "sorted (start # ticksRun start d ts)"
    by (metis sorted_wrt_take)
  moreover have "percentAt start d x \<le> percentAt start d y" if "x \<le> y" for x y
    using that assms(2) by (simp add: percentAt_def divide_right_mono)
  ultimately show ?thesis
    by (simp only: sorted_map) (erule sorted_wrt_mono_rel [rotated], simp)
qed

lemma percentAt_start: "percentAt start d start = 0"
  by (simp add: percentAt_def)

lemma percentAt_before_target:
  assumes "0 < d" and "t \<in> set (takeWhile (\<lambda>t. real_of_int (t - start) / 1000 < d) ts)"
  shows "percentAt start d t < 100"
proof -
  from assms(2) have "real_of_int (t - start) / 1000 < d"
    by (auto dest: set_takeWhileD)
  with assms(1) show ?thesis
    by (simp add: percentAt_def pos_divide_less_eq)
qed


text \<open>
  C8, as the code has it. Let an export start on a player whose \<open>recordingProgress\<close> is
  still its initial 0 (the first export since the player was mounted), on a video of finite
  duration \<open>vd > 0\<close> with the stored video rate \<open>rv > 0\<close>, and let the readings of the
  clock not go back. The callback runs at the readings before the target \<open>vd / rv\<close> is
  reached and at the first one that reaches it; \<open>isRecording\<close> is true throughout. The
  stored \<open>recordingProgress\<close> is 0 at the start and \<open>elapsed / target * 100\<close> after each run,
  not clamped: it never decreases and is below 100 at every run before the target is
  reached. The progress shown, \<open>Math.min(recordingProgress, 100)\<close>, is 0 at the start and
  the clamped percentage after each run: it never decreases and lies between 0 and 100.
\<close>

theorem capture_progress_first_export:
  assumes "map_option duration (videoRef p) = Some (Fin vd)" and "audioRef p \<noteq> None"
    and "url_truthy (audioUrl p)" and "canvasRef p \<noteq> None"
    and "fetchOk e" and "decodeOk e" and "mimeSupported e"
    and "video (playbackRates p) = Fin rv" and "0 < vd" and "0 < rv"
    and "recordingProgress p = Fin 0"
    and "sorted (dateNow e # ts)"
  shows "\<exists>p0 c. handleDownloadVideo e p = (p0, Started c)
         \<and> list_all isRecording (stateTrace ts (p0, c))
         \<and> map recordingProgress (stateTrace ts (p0, c))
             = Fin 0 # map (\<lambda>t. Fin (percentAt (dateNow e) (vd / rv) t))
                         (ticksRun (dateNow e) (vd / rv) ts)
         \<and> progressTrace ts (p0, c)
             = Fin 0 # map (\<lambda>t. Fin (min (percentAt (dateNow e) (vd / rv) t) 100))
                         (ticksRun (dateNow e) (vd / rv) ts)
         \<and> sorted (0 # map (\<lambda>t. min (percentAt (dateNow e) (vd / rv) t) 100)
                          (ticksRun (dateNow e) (vd / rv) ts))
         \<and> (\<forall>t\<in>set (ticksRun (dateNow e) (vd / rv) ts).
               0 \<le> min (percentAt (dateNow e) (vd / rv) t) 100
             \<and> min (percentAt (dateNow e) (vd / rv) t) 100 \<le> 100)
         \<and> sorted (0 # map (percentAt (dateNow e) (vd / rv))
                          (ticksRun (dateNow e) (vd / rv) ts))
         \<and> (\<forall>t\<in>set (takeWhile (\<lambda>t. real_of_int (t - dateNow e) / 1000 < vd / rv) ts).
               percentAt (dateNow e) (vd / rv) t < 100)"
proof -
  let ?d = "vd / rv"
  let ?run = "ticksRun (dateNow e) ?d ts"
  from handleDownloadVideo_started [OF assms(1-7)]
  obtain p0 c where st: "handleDownloadVideo e p = (p0, Started c)"
      "isRecording p0" "recordingProgress p0 = recordingProgress p"
      "checkEndActive c" "startTime c = dateNow e"
      "recordingDurationSec c = num_div (Fin vd) (video (playbackRates p))"
    by blast
  from assms(9,10) have pos: "0 < ?d" by simp
  from st(6) assms(8,10) have d: "recordingDurationSec c = Fin ?d" by simp
  from st(2) have rec: "list_all isRecording (stateTrace ts (p0, c))"
    by (simp add: stateTrace_isRecording)
  from stateTrace_stored [OF st(4) d pos, of ts p0] st(3,5) assms(11)
  have stored: "map recordingProgress (stateTrace ts (p0, c))
      = Fin 0 # map (\<lambda>t. Fin (percentAt (dateNow e) ?d t)) ?run"
    by simp
  have "progressTrace ts (p0, c)
      = map (\<lambda>x. num_min x (Fin 100)) (map recordingProgress (stateTrace ts (p0, c)))"
    by (simp add: progressTrace_def barWidth_def comp_def)
  with stored have shown: "progressTrace ts (p0, c)
      = Fin 0 # map (\<lambda>t. Fin (min (percentAt (dateNow e) ?d t) 100)) ?run"
    by (simp add: comp_def)
  from percentAt_sorted [OF assms(12) pos]
  have raw: "sorted (0 # map (percentAt (dateNow e) ?d) ?run)"
    by (simp add: percentAt_start)
  then have low: "\<forall>t\<in>set ?run. 0 \<le> percentAt (dateNow e) ?d t"
    by simp
  from raw have "sorted (map (\<lambda>x. min x 100) (0 # map (percentAt (dateNow e) ?d) ?run))"
    by (simp only: sorted_map) (erule sorted_wrt_mono_rel [rotated], simp add: min.coboundedI1)
  then have clamped: "sorted (0 # map (\<lambda>t. min (percentAt (dateNow e) ?d t) 100) ?run)"
    by (simp add: comp_def)
  from low have range: "\<forall>t\<in>set ?run. 0 \<le> min (percentAt (dateNow e) ?d t) 100
      \<and> min (percentAt (dateNow e) ?d t) 100 \<le> 100"
    by simp
  from pos have before: "\<forall>t\<in>set (takeWhile (\<lambda>t. real_of_int (t - dateNow e) / 1000 < ?d) ts).
      percentAt (dateNow e) ?d t < 100"
    by (blast intro: percentAt_before_target)
  show ?thesis
    by (rule exI [of _ p0], rule exI [of _ c])
      (intro conjI st(1) rec stored shown clamped range raw before)
qed

theorem capture_progress_first_export_witness:
  "\<exists>p0 c. handleDownloadVideo (succeeding 0) (mounted (1 / 4) (1 / 4)) = (p0, Started c)
     \<and> list_all isRecording (stateTrace [100, 200, 300, 400] (p0, c))
     \<and> map recordingProgress (stateTrace [100, 200, 300, 400] (p0, c))
         = Fin 0 # map (\<lambda>t. Fin (percentAt (dateNow (succeeding 0)) (1 / 4 / 1) t))
                     (ticksRun (dateNow (succeeding 0)) (1 / 4 / 1) [100, 200, 300, 400])
     \<and> progressTrace [100, 200, 300, 400] (p0, c)
         = Fin 0 # map (\<lambda>t. Fin (min (percentAt (dateNow (succeeding 0)) (1 / 4 / 1) t) 100))
                     (ticksRun (dateNow (succeeding 0)) (1 / 4 / 1) [100, 200, 300, 400])
     \<and> sorted (0 # map (\<lambda>t. min (percentAt (dateNow (succeeding 0)) (1 / 4 / 1) t) 100)
                      (ticksRun (dateNow (succeeding 0)) (1 / 4 / 1) [100, 200, 300, 400]))
     \<and> (\<forall>t\<in>set (ticksRun (dateNow (succeeding 0)) (1 / 4 / 1) [100, 200, 300, 400]).
           0 \<le> min (percentAt (dateNow (succeeding 0)) (1 / 4 / 1) t) 100
         \<and> min (percentAt (dateNow (succeeding 0)) (1 / 4 / 1) t) 100 \<le> 100)
     \<and> sorted (0 # map (percentAt (dateNow (succeeding 0)) (1 / 4 / 1))
                      (ticksRun (dateNow (succeeding 0)) (1 / 4 / 1) [100, 200, 300, 400]))
     \<and> (\<forall>t\<in>set (takeWhile
                    (\<lambda>t. real_of_int (t - dateNow (succeeding 0)) / 1000 < 1 / 4 / 1)
                    [100, 200, 300, 400]).
           percentAt (dateNow (succeeding 0)) (1 / 4 / 1) t < 100)"
  by (rule capture_progress_first_export) (simp_all add: mounted_def succeeding_def)

lemma first_export_example:
  "handleDownloadVideo (succeeding 0) (mounted (1 / 4) (1 / 4))
     = ((mounted (1 / 4) (1 / 4))
          \<lparr>isRecording := True,
           videoRef := Some \<lparr>duration = Fin (1 / 4), currentTime = Fin 0,
                             playbackRate = Fin 1, muted = False, paused = False,
                             videoWidth = 1280, videoHeight = 720\<rparr>,
           canvasRef := Some \<lparr>width = 1280, height = 720\<rparr>\<rparr>,
        Started (recording (1 / 4)))"
  by (simp add: handleDownloadVideo_def succeeding_def mounted_def recording_def Let_def)

lemma exported_example:
  "exported
     = (mounted (1 / 4) (1 / 4))
         \<lparr>videoRef := Some \<lparr>duration = Fin (1 / 4), currentTime = Fin 0,
                            playbackRate = Fin 1, muted = False, paused = True,
                            videoWidth = 1280, videoHeight = 720\<rparr>,
          canvasRef := Some \<lparr>width = 1280, height = 720\<rparr>,
          recordingProgress := Fin 120\<rparr>"
  by (simp add: exported_def first_export_example)
    (simp add: mounted_def recording_def checkEnd.simps Let_def)

lemma second_export_example:
  "handleDownloadVideo (succeeding 1000) exported
     = (exported
          \<lparr>isRecording := True,
           videoRef := Some \<lparr>duration = Fin (1 / 4), currentTime = Fin 0,
                             playbackRate = Fin 1, muted = False, paused = False,
                             videoWidth = 1280, videoHeight = 720\<rparr>\<rparr>,
        Started ((recording (1 / 4))\<lparr>startTime := 1000\<rparr>))"
  by (simp add: exported_example)
    (simp add: handleDownloadVideo_def succeeding_def mounted_def recording_def Let_def)

text \<open>
  C8, as stated, fails twice. In a first export of a video of 0.25 s, with the callback
  running at 100, 200 and 300 ms, the percentage \<open>elapsed / target * 100\<close> stored by the
  third run is 120, above 100, and \<open>isRecording\<close> is true in every state. And since
  nothing resets \<open>recordingProgress\<close>, a second export of the same player shows the
  widths 100, 40, 80, 100: the progress shown decreases at the first run of the callback.
\<close>

theorem recordingProgress_counterexample:
  "snd (handleDownloadVideo (succeeding 0) (mounted (1 / 4) (1 / 4)))
     = Started (recording (1 / 4))
   \<and> list_all isRecording
        (stateTrace [100, 200, 300]
           (fst (handleDownloadVideo (succeeding 0) (mounted (1 / 4) (1 / 4))),
            recording (1 / 4)))
   \<and> map recordingProgress
        (stateTrace [100, 200, 300]
           (fst (handleDownloadVideo (succeeding 0) (mounted (1 / 4) (1 / 4))),
            recording (1 / 4)))
       = [Fin 0, Fin 40, Fin 80, Fin 120]
   \<and> \<not> num_ge (Fin 100) (Fin 120)
   \<and> snd (handleDownloadVideo (succeeding 1000) exported)
       = Started ((recording (1 / 4))\<lparr>startTime := 1000\<rparr>)
   \<and> list_all isRecording
        (stateTrace [1100, 1200, 1300]
           (fst (handleDownloadVideo (succeeding 1000) exported),
            (recording (1 / 4))\<lparr>startTime := 1000\<rparr>))
   \<and> progressTrace [1100, 1200, 1300]
        (fst (handleDownloadVideo (succeeding 1000) exported),
         (recording (1 / 4))\<lparr>startTime := 1000\<rparr>)
       = [Fin 100, Fin 40, Fin 80, Fin 100]
   \<and> \<not> num_ge (Fin 40) (Fin 100)"
proof -
  have first: "map recordingProgress
        (stateTrace [100, 200, 300]
           (fst (handleDownloadVideo (succeeding 0) (mounted (1 / 4) (1 / 4))),
            recording (1 / 4)))
       = [Fin 0, Fin 40, Fin 80, Fin 120]"
    by (simp add: first_export_example)
      (simp add: mounted_def recording_def checkEnd.simps Let_def)
  have second: "progressTrace [1100, 1200, 1300]
        (fst (handleDownloadVideo (succeeding 1000) exported),
         (recording (1 / 4))\<lparr>startTime := 1000\<rparr>)
       = [Fin 100, Fin 40, Fin 80, Fin 100]"
    by (simp add: second_export_example progressTrace_def)
      (simp add: exported_example mounted_def recording_def barWidth_def checkEnd.simps Let_def)
  have rec1: "list_all isRecording
        (stateTrace [100, 200, 300]
           (fst (handleDownloadVideo (succeeding 0) (mounted (1 / 4) (1 / 4))),
            recording (1 / 4)))"
    by (rule stateTrace_isRecording) (simp add: first_export_example)
  have rec2: "list_all isRecording
        (stateTrace [1100, 1200, 1300]
           (fst (handleDownloadVideo (succeeding 1000) exported),
            (recording (1 / 4))\<lparr>startTime := 1000\<rparr>))"
    by (rule stateTrace_isRecording) (simp add: second_export_example)
  from first second rec1 rec2 show ?thesis
    by (simp add: first_export_example second_export_example)
qed

text \<open>
  The path of an export that succeeds, on an example: started on a video of 0.25 s,
  stopped by the third run of the interval, then \<open>onstop\<close>: the audio context is closed,
  both positions are 0 and \<open>isRecording\<close> is false again.
\<close>

lemma capture_success_example:
  "(case handleDownloadVideo
           \<lparr>fetchOk = True, decodeOk = True, mimeSupported = True, dateNow = 0\<rparr>
           (at_positions (1 / 8) (1 / 8) (mounted (1 / 4) (1 / 4))) of
      (p0, Started c) \<Rightarrow>
        (case onstop (poll [100, 200, 300, 400] (p0, c)) of
           (p', c') \<Rightarrow>
             audioContext c' = Closed \<and> \<not> isRecording p'
             \<and> map_option currentTime (videoRef p') = Some (Fin 0)
             \<and> map_option currentTime (audioRef p') = Some (Fin 0)
             \<and> recorderState c' = Inactive)
    | _ \<Rightarrow> False)"
  by (simp add: handleDownloadVideo_def at_positions_def mounted_def checkEnd.simps Let_def)

end
